theory Spec2Isabelle
  imports Main "HOL-Library.Sublist" "HOL-Library.AList"
begin

section \<open>Python strings\<close>

text \<open>
  A Python \<open>str\<close> whose code points are below 256 is a HOL \<open>string\<close>: one
  \<open>char\<close> per code point.  The backslash cannot be written inside a HOL string
  literal, so it is the character \<open>bs\<close> (code 92).
\<close>

abbreviation bs :: char where
  "bs \<equiv> CHR 0x5C"

text \<open>
  \<open>str.lower()\<close> on code points below 256: the ASCII capitals (65..90) and the
  Latin-1 capitals (192..222 without the multiplication sign 215) move up by 32, every
  other code point stays.
\<close>

definition lower_char :: "char \<Rightarrow> char" where
  "lower_char c =
     (let n = (of_char c :: nat)
      in if (65 \<le> n \<and> n \<le> 90) \<or> (192 \<le> n \<and> n \<le> 222 \<and> n \<noteq> 215)
         then char_of (n + 32) else c)"

definition lower :: "string \<Rightarrow> string" where
  "lower s = map lower_char s"

text \<open>
  The operator \<open>needle in haystack\<close> on strings: scan the haystack from the left and
  test at every position whether the needle starts there.
\<close>

fun py_in :: "string \<Rightarrow> string \<Rightarrow> bool" where
  "py_in needle [] = (needle = [])"
| "py_in needle (c # cs) = (prefix needle (c # cs) \<or> py_in needle cs)"

section \<open>hcli/lib/ida/python.py\<close>

subsection \<open>is_windows_store_shim\<close>

text \<open>
  \<^verbatim>\<open>
  def is_windows_store_shim(path: str | None) -> bool:
      if path is None:
          return False
      lowered = path.lower()
      return "microsoft\\windowsapps" in lowered or "microsoft/windowsapps" in lowered
  \<close>
\<close>

definition shim_backslash :: string where
  "shim_backslash = ''microsoft'' @ bs # ''windowsapps''"

definition shim_slash :: string where
  "shim_slash = ''microsoft/windowsapps''"

definition is_windows_store_shim :: "string option \<Rightarrow> bool" where
  "is_windows_store_shim path =
     (case path of
        None \<Rightarrow> False
      | Some p \<Rightarrow>
          (let lowered = lower p
           in py_in shim_backslash lowered \<or> py_in shim_slash lowered))"

subsection \<open>Bytes, text and exceptions\<close>

text \<open>
  The captured output of a subprocess is \<open>bytes\<close>: one \<open>char\<close> per byte.  Decoded
  text is a list of Unicode code points.  \<open>bytes.decode()\<close> is the strict UTF-8 decoder:
  it raises \<open>UnicodeDecodeError\<close> (here: returns \<open>None\<close>) on a byte sequence that is
  not well-formed UTF-8 (a stray continuation byte, a truncated or overlong sequence,
  a surrogate, a code point above U+10FFFF).
\<close>

type_synonym bytes = "char list"

type_synonym ustr = "nat list"

definition is_cont :: "nat \<Rightarrow> bool" where
  "is_cont b = (128 \<le> b \<and> b < 192)"

fun utf8_points :: "nat list \<Rightarrow> nat list option" where
  "utf8_points [] = Some []"
| "utf8_points (b0 # rest) =
     (if b0 < 128 then map_option ((#) b0) (utf8_points rest)
      else if 194 \<le> b0 \<and> b0 < 224 then
        (case rest of
           b1 # r \<Rightarrow>
             if is_cont b1
             then map_option ((#) ((b0 - 192) * 64 + (b1 - 128))) (utf8_points r)
             else None
         | _ \<Rightarrow> None)
      else if 224 \<le> b0 \<and> b0 < 240 then
        (case rest of
           b1 # b2 # r \<Rightarrow>
             if (if b0 = 224 then 160 \<le> b1 \<and> b1 < 192
                 else if b0 = 237 then 128 \<le> b1 \<and> b1 < 160
                 else is_cont b1) \<and> is_cont b2
             then map_option ((#) ((b0 - 224) * 4096 + (b1 - 128) * 64 + (b2 - 128)))
                    (utf8_points r)
             else None
         | _ \<Rightarrow> None)
      else if 240 \<le> b0 \<and> b0 < 245 then
        (case rest of
           b1 # b2 # b3 # r \<Rightarrow>
             if (if b0 = 240 then 144 \<le> b1 \<and> b1 < 192
                 else if b0 = 244 then 128 \<le> b1 \<and> b1 < 144
                 else is_cont b1) \<and> is_cont b2 \<and> is_cont b3
             then map_option
                    ((#) ((b0 - 240) * 262144 + (b1 - 128) * 4096 + (b2 - 128) * 64 + (b3 - 128)))
                    (utf8_points r)
             else None
         | _ \<Rightarrow> None)
      else None)"

definition decode :: "bytes \<Rightarrow> ustr option" where
  "decode b = utf8_points (map of_char b)"

text \<open>
  The exceptions of both modules.  \<open>CalledProcessError\<close> holds the return code, the
  command and the captured output (\<open>None\<close> when the raiser passes none);
  \<open>RuntimeError\<close> holds its message and its cause (\<open>raise ... from e\<close>).
\<close>

datatype exn =
    RuntimeError string "exn option"
  | CantInstallPackagesError ustr
  | CalledProcessError int "string list" "bytes option"
  | UnicodeDecodeError
  | TimeoutExpired
  | FileNotFoundError
  | FileExistsError
  | NotADirectoryError
  | IsADirectoryError
  | PermissionError
  | OSError
  | ImportError
  | OtherException string

text \<open>
  \<open>subprocess.run\<close> belongs to the environment: a runner maps the command line and the
  timeout (seconds, \<open>None\<close> when the call passes none) to what the launch did.  Either
  the process ran to its end (return code, captured stdout, captured stderr), or the
  timeout expired, or the executable was not found, or the operating system refused the
  launch for another reason.
\<close>

datatype launch =
    Completed int bytes bytes
  | Launch_timeout
  | Launch_not_found
  | Launch_os_error

type_synonym runner = "string list \<Rightarrow> nat option \<Rightarrow> launch"

text \<open>The exception \<open>subprocess.run\<close> raises for a launch that did not complete.\<close>

fun launch_exn :: "launch \<Rightarrow> exn" where
  "launch_exn Launch_timeout = TimeoutExpired"
| "launch_exn Launch_not_found = FileNotFoundError"
| "launch_exn _ = OSError"

text \<open>
  \<open>pathlib.Path\<close> is a wrapper around the string it was built from; its
  normalisation of separators is not modelled.
\<close>

datatype path = Path string

fun str_path :: "path \<Rightarrow> string" where
  "str_path (Path s) = s"

subsection \<open>find_current_python_executable\<close>

text \<open>
  \<^verbatim>\<open>
  def find_current_python_executable() -> Path:
      exe = os.environ.get("HCLI_CURRENT_IDA_PYTHON_EXE")
      if exe:
          return Path(exe)
      if ENV.HCLI_CURRENT_IDA_PYTHON_EXE is not None:
          return Path(ENV.HCLI_CURRENT_IDA_PYTHON_EXE)
      try:
          exe = run_py_in_current_idapython(FIND_PYTHON_PY)
      except RuntimeError as e:
          raise RuntimeError("failed to determine current IDA Python interpreter") from e
      if "python" not in exe:
          logger.warning(..., exe)
      logger.debug(..., exe)
      return Path(exe)
  \<close>
  The three sources are the inputs: the environment variable, the value of the
  process-wide configuration \<open>ENV\<close> (module \<open>hcli.env\<close>), and what the call
  \<open>run_py_in_current_idapython(FIND_PYTHON_PY)\<close> would do (module \<open>hcli.lib.ida\<close>):
  return a string or raise.  The function returns, beside its result, the trace of what
  it did, so that "live discovery was not invoked" can be said.
\<close>

record py_env =
  environ_exe :: "string option"
  config_exe :: "string option"
  run_py_in_current_idapython :: "exn + string"

datatype event = Ran_discovery | Log_warning string | Log_debug string

definition live_discovery :: "py_env \<Rightarrow> event list \<times> (exn + path)" where
  "live_discovery e =
     (case run_py_in_current_idapython e of
        Inl x \<Rightarrow>
          (case x of
             RuntimeError m c \<Rightarrow>
               ([Ran_discovery],
                Inl (RuntimeError ''failed to determine current IDA Python interpreter''
                       (Some x)))
           | _ \<Rightarrow> ([Ran_discovery], Inl x))
      | Inr exe \<Rightarrow>
          (Ran_discovery #
             (if \<not> py_in ''python'' exe then [Log_warning exe] else []) @ [Log_debug exe],
           Inr (Path exe)))"

definition find_current_python_executable :: "py_env \<Rightarrow> event list \<times> (exn + path)" where
  "find_current_python_executable e =
     (case environ_exe e of
        Some exe \<Rightarrow>
          if exe \<noteq> [] then ([], Inr (Path exe))
          else (case config_exe e of
                  Some c \<Rightarrow> ([], Inr (Path c))
                | None \<Rightarrow> live_discovery e)
      | None \<Rightarrow>
          (case config_exe e of
             Some c \<Rightarrow> ([], Inr (Path c))
           | None \<Rightarrow> live_discovery e))"

subsection \<open>does_current_ida_have_pip\<close>


subsection \<open>verify_pip_can_install_packages\<close>

text \<open>
  \<^verbatim>\<open>
  class CantInstallPackagesError(ValueError): ...

  def verify_pip_can_install_packages(python_exe: Path, packages: list[str]):
      process = subprocess.run(
          [str(python_exe), "-m", "pip", "install", "--dry-run"] + packages,
          stdout=subprocess.PIPE, stderr=subprocess.PIPE)
      stdout, stderr = process.stdout, process.stderr
      if process.returncode != 0:
          logger.debug("can't install packages")
          logger.debug(stdout.decode())
          logger.debug(stderr.decode())
          raise CantInstallPackagesError(stdout.decode())
  \<close>
  The arguments of the two \<open>logger.debug\<close> calls are evaluated before the
  \<open>raise\<close>, so both decodings happen first.
\<close>

definition verify_pip_can_install_packages :: "runner \<Rightarrow> path \<Rightarrow> string list \<Rightarrow> exn + unit" where
  "verify_pip_can_install_packages run python_exe packages =
     (case run ([str_path python_exe, ''-m'', ''pip'', ''install'', ''--dry-run''] @ packages) None of
        Completed returncode out err \<Rightarrow>
          if returncode \<noteq> 0 then
            (case decode out of
               None \<Rightarrow> Inl UnicodeDecodeError
             | Some logged_out \<Rightarrow>
                 (case decode err of
                    None \<Rightarrow> Inl UnicodeDecodeError
                  | Some logged_err \<Rightarrow>
                      (case decode out of
                         None \<Rightarrow> Inl UnicodeDecodeError
                       | Some msg \<Rightarrow> Inl (CantInstallPackagesError msg))))
          else Inr ()
      | failed \<Rightarrow> Inl (launch_exn failed))"

subsection \<open>pip_freeze\<close>

text \<open>
  \<^verbatim>\<open>
  def pip_freeze(python_exe: Path):
      process = subprocess.run([str(python_exe), "-m", "pip", "freeze"], stdout=PIPE, stderr=PIPE)
      stdout, _ = process.stdout, process.stderr
      if process.returncode != 0:
          raise subprocess.CalledProcessError(process.returncode, [str(python_exe), "-m", "pip", "freeze"])
      return stdout.decode()
  \<close>
\<close>

definition pip_freeze :: "runner \<Rightarrow> path \<Rightarrow> exn + ustr" where
  "pip_freeze run python_exe =
     (case run [str_path python_exe, ''-m'', ''pip'', ''freeze''] None of
        Completed returncode out err \<Rightarrow>
          if returncode \<noteq> 0 then
            Inl (CalledProcessError returncode [str_path python_exe, ''-m'', ''pip'', ''freeze''] None)
          else (case decode out of
                  None \<Rightarrow> Inl UnicodeDecodeError
                | Some t \<Rightarrow> Inr t)
      | failed \<Rightarrow> Inl (launch_exn failed))"

subsection \<open>The discovery script FIND_PYTHON_PY\<close>

text \<open>
  The script runs inside the embedded interpreter.  What it reads there is its
  environment: \<open>sys.executable\<close> (a string, possibly empty, or \<open>None\<close>),
  \<open>sys.prefix\<close>, \<open>sys.platform\<close>, and the library functions \<open>os.path.isfile\<close>,
  \<open>os.path.join\<close>, \<open>os.path.basename\<close> and \<open>shutil.which\<close> of that interpreter.
  The script's own \<open>is_windows_store_shim\<close> is the function above, character for
  character.
\<close>

record script_env =
  sys_executable :: "string option"
  sys_prefix :: string
  sys_platform :: string
  os_path_isfile :: "string \<Rightarrow> bool"
  os_path_join :: "string list \<Rightarrow> string"
  os_path_basename :: "string \<Rightarrow> string"
  shutil_which :: "string \<Rightarrow> string option"

text \<open>Truth value of an optional string: \<open>None\<close> and the empty string are false.\<close>

definition truthy :: "string option \<Rightarrow> bool" where
  "truthy v = (case v of None \<Rightarrow> False | Some s \<Rightarrow> s \<noteq> [])"

text \<open>
  \<^verbatim>\<open>
  def find_python_from_prefix():
      prefix = sys.prefix
      if not prefix:
          return None
      if sys.platform == "win32":
          candidate = os.path.join(prefix, "python.exe")
          if os.path.isfile(candidate):
              return candidate
      for name in ("python3", "python"):
          candidate = os.path.join(prefix, "bin", name)
          if os.path.isfile(candidate):
              return candidate
      return None
  \<close>
\<close>

fun prefix_bin_loop :: "script_env \<Rightarrow> string list \<Rightarrow> string option" where
  "prefix_bin_loop e [] = None"
| "prefix_bin_loop e (name # names) =
     (let candidate = os_path_join e [sys_prefix e, ''bin'', name]
      in if os_path_isfile e candidate then Some candidate else prefix_bin_loop e names)"

definition find_python_from_prefix :: "script_env \<Rightarrow> string option" where
  "find_python_from_prefix e =
     (let pfx = sys_prefix e
      in if pfx = [] then None
         else if sys_platform e = ''win32''
                 \<and> os_path_isfile e (os_path_join e [pfx, ''python.exe''])
         then Some (os_path_join e [pfx, ''python.exe''])
         else prefix_bin_loop e [''python3'', ''python''])"

text \<open>
  \<^verbatim>\<open>
  def find_python_executable():
      exe = sys.executable
      if exe and "python" in os.path.basename(exe).lower():
          if not is_windows_store_shim(exe):
              return exe
      prefix_python = find_python_from_prefix()
      if prefix_python and not is_windows_store_shim(prefix_python):
          return prefix_python
      for cmd in ("python3", "python"):
          candidate = shutil.which(cmd)
          if candidate and not is_windows_store_shim(candidate):
              return candidate
      return shutil.which("python3") or shutil.which("python")
  \<close>
  The loop over the commands returns \<open>Some candidate\<close> when it returned from the
  function and \<open>None\<close> when it ran to its end.
\<close>

fun which_loop :: "script_env \<Rightarrow> string list \<Rightarrow> string option" where
  "which_loop e [] = None"
| "which_loop e (cmd # cmds) =
     (let candidate = shutil_which e cmd
      in if truthy candidate \<and> \<not> is_windows_store_shim candidate then candidate
         else which_loop e cmds)"

definition find_python_executable :: "script_env \<Rightarrow> string option" where
  "find_python_executable e =
     (let exe = sys_executable e
      in if (case exe of
               None \<Rightarrow> False
             | Some x \<Rightarrow> x \<noteq> [] \<and> py_in ''python'' (lower (os_path_basename e x)))
            \<and> \<not> is_windows_store_shim exe
         then exe
         else
           (let prefix_python = find_python_from_prefix e
            in if truthy prefix_python \<and> \<not> is_windows_store_shim prefix_python
               then prefix_python
               else
                 (case which_loop e [''python3'', ''python''] of
                    Some candidate \<Rightarrow> Some candidate
                  | None \<Rightarrow>
                      if truthy (shutil_which e ''python3'') then shutil_which e ''python3''
                      else shutil_which e ''python'')))"








subsection \<open>Concrete runs of pip\<close>

text \<open>
  Runners for the examples below.  A dry run that reports a conflict in UTF-8; a dry
  run that fails and whose standard error holds the byte \<open>0xE9\<close> (an e acute in the
  Windows code page 1252, which is not UTF-8); a freeze that succeeds and whose
  standard output holds that byte; a freeze that succeeds with an ASCII listing; and
  a run that fails with return code 2.
\<close>

definition conflict_run :: runner where
  "conflict_run cmd timeout = Completed 1 ''ERROR: Cannot install'' []"

definition cp1252_stderr_run :: runner where
  "cp1252_stderr_run cmd timeout = Completed 1 ''ERROR: Cannot install'' [CHR 0xE9]"

definition cp1252_stdout_run :: runner where
  "cp1252_stdout_run cmd timeout = Completed 0 [CHR ''p'', CHR 0xE9] []"

definition listing_run :: runner where
  "listing_run cmd timeout = Completed 0 ''pkg==1.0'' []"

definition failing_run :: runner where
  "failing_run cmd timeout = Completed 2 [] []"

section \<open>hcli/lib/ida/protocol.py\<close>

subsection \<open>The state of the operating system\<close>

text \<open>
  The handlers live in the file system and in the Windows registry.  Both are
  association lists, so that every operation computes.

  A path is the list of its components.  A node of the file system is a directory, a
  regular file (content and permission bits) or an application bundle.  A bundle is
  the directory tree that \<open>osacompile\<close> writes, taken as one node: the script it was
  compiled from and the property list \<open>Contents/Info.plist\<close>.  The property list is
  held as its XML text: \<open>plutil -convert\<close> changes the encoding of the file, not the
  list, so \<open>-convert xml1 -o -\<close> prints the text held and \<open>-convert binary1\<close> keeps
  it.  Temporary files and directories are made and removed inside one call and are
  not part of the state.

  A registry key (below \<open>HKEY_CURRENT_USER\<close>) is the list of its components and maps
  to its values, from value name to string data.

  What the functions print with \<open>console.print\<close> is appended to \<open>console\<close>, one
  constructor per message.
\<close>

datatype node = Dir | File string nat | App_bundle string string

type_synonym fpath = "string list"

type_synonym filesystem = "(fpath \<times> node) list"

type_synonym hive = "(string list \<times> (string \<times> string) list) list"

datatype message =
    Installed_macos string
  | Failed_setup_macos exn
  | Error_setup_macos exn
  | Registered_windows
  | Winreg_not_available
  | Error_setup_windows
  | Installed_linux
  | Linux_handler_target string
  | Failed_setup_linux exn
  | Error_setup_linux exn
  | Not_found_macos
  | Removed_macos string
  | Error_removing_macos exn
  | Not_found_windows
  | Removed_windows
  | Error_removing_windows exn
  | Not_found_linux
  | Removed_linux
  | Error_removing_linux exn
  | Unsupported_platform string

record world =
  fs :: filesystem
  registry :: hive
  console :: "message list"

text \<open>
  The environment of a call: the platform name, the home directory, the path of the
  tool's own executable (\<open>get_hcli_executable_path\<close>, module \<open>hcli.lib.util.io\<close>),
  whether \<open>import winreg\<close> succeeds, the permission bits of a newly created file, the
  names \<open>tempfile\<close> picks, and the external tools.  A tool that only reports is
  \<open>run_tool\<close>: the command line and the file system at the time of the call give what
  the launch did.  \<open>osacompile\<close> is given the script and what stands at the target
  path; it has an exit status and, when that is zero, leaves a bundle with the
  property list \<open>osacompile_plist\<close>.  The two \<open>plutil\<close> calls have an exit status
  that depends on the property list they read.
\<close>

record os_env =
  platform_system :: string
  home :: fpath
  hcli_executable_path :: string
  has_winreg :: bool
  new_file_mode :: nat
  temp_script_path :: string
  temp_plist_path :: string
  run_tool :: "string list \<Rightarrow> filesystem \<Rightarrow> launch"
  osacompile_status :: "string \<Rightarrow> node option \<Rightarrow> launch"
  osacompile_plist :: "string \<Rightarrow> node option \<Rightarrow> string"
  plutil_xml1_status :: "string \<Rightarrow> launch"
  plutil_binary1_status :: "string \<Rightarrow> launch"

datatype outcome = Returned | Raised exn


abbreviation nl :: char where
  "nl \<equiv> CHR 0x0A"

definition PROTOCOL :: string where
  "PROTOCOL = ''ida''"


subsection \<open>Library calls\<close>
















definition has_subkey :: "hive \<Rightarrow> string list \<Rightarrow> bool" where
  "has_subkey r k = list_ex (\<lambda>(k', values). strict_prefix k k') r"

definition DeleteKeyEx :: "hive \<Rightarrow> string list \<Rightarrow> exn + hive" where
  "DeleteKeyEx r k =
     (case map_of r k of
        None \<Rightarrow> Inl FileNotFoundError
      | Some values \<Rightarrow> if has_subkey r k then Inl PermissionError else Inr (AList.delete k r))"

subsection \<open>Registration\<close>



fun join_lines :: "string list \<Rightarrow> string" where
  "join_lines [] = []"
| "join_lines [l] = l"
| "join_lines (l # ls) = l @ nl # join_lines ls"












text \<open>
  \<^verbatim>\<open>
  def setup_windows_protocol_handler() -> None:
      try:
          import winreg
          from winreg import HKEY_CURRENT_USER, REG_SZ
          hcli_path = get_hcli_executable_path()
          command = f'"{hcli_path}" ida open "%1"'
          reg_key = rf"SOFTWARE\Classes\{PROTOCOL}"
          with winreg.CreateKey(HKEY_CURRENT_USER, reg_key) as key:
              winreg.SetValueEx(key, "", 0, REG_SZ, f"URL:{PROTOCOL.upper()} Protocol")
              winreg.SetValueEx(key, "URL Protocol", 0, REG_SZ, "")
          with winreg.CreateKey(HKEY_CURRENT_USER, rf"{reg_key}\DefaultIcon") as key:
              winreg.SetValueEx(key, "", 0, REG_SZ, f"{hcli_path},1")
          with winreg.CreateKey(HKEY_CURRENT_USER, rf"{reg_key}\shell") as key:
              pass
          with winreg.CreateKey(HKEY_CURRENT_USER, rf"{reg_key}\shell\open") as key:
              pass
          with winreg.CreateKey(HKEY_CURRENT_USER, rf"{reg_key}\shell\open\command") as key:
              winreg.SetValueEx(key, "", 0, REG_SZ, command)
          console.print(f"... Windows protocol handler ({PROTOCOL}://) registered in registry")
      except ImportError:
          console.print("[red]winreg module not available (not on Windows?)[/red]")
          raise
      except Exception:
          console.print("[red]Error setting up Windows protocol handler: {e}[/red]")
          raise
  \<close>
\<close>

definition handler_root :: "string list" where
  "handler_root = [''SOFTWARE'', ''Classes'', PROTOCOL]"









subsection \<open>Removal\<close>


text \<open>
  \<^verbatim>\<open>
  def unregister_windows_protocol_handler() -> None:
      try:
          import winreg
          from winreg import HKEY_CURRENT_USER
          reg_key = rf"SOFTWARE\Classes\{PROTOCOL}"
          removed = False
          try:
              winreg.DeleteKeyEx(HKEY_CURRENT_USER, rf"{reg_key}\shell\open\command")
              winreg.DeleteKeyEx(HKEY_CURRENT_USER, rf"{reg_key}\shell\open")
              winreg.DeleteKeyEx(HKEY_CURRENT_USER, rf"{reg_key}\shell")
              winreg.DeleteKeyEx(HKEY_CURRENT_USER, rf"{reg_key}\DefaultIcon")
              winreg.DeleteKeyEx(HKEY_CURRENT_USER, reg_key)
              removed = True
          except FileNotFoundError:
              pass
          if removed:
              console.print(f"... Windows protocol handler ({PROTOCOL}://) removed from registry")
          else:
              console.print("[yellow]Windows protocol handler not found (already removed)[/yellow]")
      except ImportError:
          console.print("[red]winreg module not available (not on Windows?)[/red]")
          raise
      except Exception as e:
          console.print(f"[red]Error removing Windows protocol handler: {e}[/red]")
          raise
  \<close>
  The five deletions in a row: the first exception ends the row.
\<close>

fun delete_key_sequence :: "hive \<Rightarrow> string list list \<Rightarrow> exn option \<times> hive" where
  "delete_key_sequence r [] = (None, r)"
| "delete_key_sequence r (k # ks) =
     (case DeleteKeyEx r k of
        Inl x \<Rightarrow> (Some x, r)
      | Inr r' \<Rightarrow> delete_key_sequence r' ks)"

definition handler_keys :: "string list list" where
  "handler_keys =
     [handler_root @ [''shell'', ''open'', ''command''],
      handler_root @ [''shell'', ''open''],
      handler_root @ [''shell''],
      handler_root @ [''DefaultIcon''],
      handler_root]"

definition unregister_windows_protocol_handler :: "os_env \<Rightarrow> world \<Rightarrow> outcome \<times> world" where
  "unregister_windows_protocol_handler e w =
     (if \<not> has_winreg e
      then (Raised ImportError, w\<lparr>console := console w @ [Winreg_not_available]\<rparr>)
      else
        (case delete_key_sequence (registry w) handler_keys of
           (None, r) \<Rightarrow>
             (Returned, w\<lparr>registry := r, console := console w @ [Removed_windows]\<rparr>)
         | (Some x, r) \<Rightarrow>
             if x = FileNotFoundError
             then (Returned, w\<lparr>registry := r, console := console w @ [Not_found_windows]\<rparr>)
             else (Raised x,
                   w\<lparr>registry := r, console := console w @ [Error_removing_windows x]\<rparr>)))"


subsection \<open>Dispatch on the platform\<close>




subsection \<open>A concrete environment\<close>

text \<open>
  For the examples: tools that always exit with zero, an \<open>osacompile\<close> that keeps the
  property list of a bundle it finds and writes a minimal one otherwise, a home
  directory, and two states: one with nothing in it, and one whose registry holds the
  handler's keys except \<open>DefaultIcon\<close>.
\<close>

definition quiet_tool :: "string list \<Rightarrow> filesystem \<Rightarrow> launch" where
  "quiet_tool cmd f = Completed 0 [] []"

definition fresh_plist :: string where
  "fresh_plist = join_lines [''<plist version=1.0>'', ''<dict>'', ''</dict>'', ''</plist>'', []]"

definition keep_plist :: "string \<Rightarrow> node option \<Rightarrow> string" where
  "keep_plist script existing =
     (case existing of
        Some (App_bundle s p) \<Rightarrow> p
      | _ \<Rightarrow> fresh_plist)"

definition example_env :: "string \<Rightarrow> os_env" where
  "example_env system =
     \<lparr>platform_system = system,
      home = [''home'', ''user''],
      hcli_executable_path = ''/usr/bin/hcli'',
      has_winreg = (system = ''Windows''),
      new_file_mode = 420,
      temp_script_path = ''/tmp/t/HCLIHandler.applescript'',
      temp_plist_path = ''/tmp/t.plist'',
      run_tool = quiet_tool,
      osacompile_status = (\<lambda>script existing. Completed 0 [] []),
      osacompile_plist = keep_plist,
      plutil_xml1_status = (\<lambda>plist. Completed 0 [] []),
      plutil_binary1_status = (\<lambda>plist. Completed 0 [] [])\<rparr>"


definition partial_world :: world where
  "partial_world =
     \<lparr>fs = [],
      registry =
        [([''SOFTWARE''], []),
         ([''SOFTWARE'', ''Classes''], []),
         ([''SOFTWARE'', ''Classes'', ''ida''], [([], ''URL:IDA Protocol'')]),
         ([''SOFTWARE'', ''Classes'', ''ida'', ''shell''], []),
         ([''SOFTWARE'', ''Classes'', ''ida'', ''shell'', ''open''], []),
         ([''SOFTWARE'', ''Classes'', ''ida'', ''shell'', ''open'', ''command''],
          [([], ''hcli ida open'')])],
      console = []\<rparr>"

subsection \<open>What a registration leaves behind\<close>







subsection \<open>A concrete run of the discovery script\<close>

text \<open>
  An embedded interpreter on Windows: \<open>sys.executable\<close> is the host application,
  the prefix holds \<open>python.exe\<close>, and the search path only finds the Store shim.
  Paths are joined with a slash and the base name is what follows the last slash or
  backslash.
\<close>

definition join_slash :: "string list \<Rightarrow> string" where
  "join_slash parts =
     (case parts of
        [] \<Rightarrow> []
      | p # ps \<Rightarrow> foldl (\<lambda>a b. a @ CHR ''/'' # b) p ps)"

definition basename_slash :: "string \<Rightarrow> string" where
  "basename_slash s = rev (takeWhile (\<lambda>c. c \<noteq> CHR ''/'' \<and> c \<noteq> bs) (rev s))"

definition embedded_windows_env :: script_env where
  "embedded_windows_env =
     \<lparr>sys_executable = Some ''C:/IDA/idat.exe'',
      sys_prefix = ''C:/IDA/python314'',
      sys_platform = ''win32'',
      os_path_isfile = (\<lambda>p. p = ''C:/IDA/python314/python.exe''),
      os_path_join = join_slash,
      os_path_basename = basename_slash,
      shutil_which =
        (\<lambda>cmd. Some ''C:/Users/u/AppData/Local/Microsoft/WindowsApps/python3.exe'')\<rparr>"

section \<open>Properties\<close>

subsection \<open>Strings\<close>

lemma py_in_sublist: "py_in needle hay \<longleftrightarrow> sublist needle hay"
  by (induction hay) (simp_all add: sublist_Cons_right)

lemma py_in_iff_split: "py_in needle hay \<longleftrightarrow> (\<exists>ps ss. hay = ps @ needle @ ss)"
  by (simp add: py_in_sublist sublist_def)

lemma lower_split:
  "(\<exists>ps ss. lower s = ps @ n @ ss) \<longleftrightarrow>
   (\<exists>pre mid post. s = pre @ mid @ post \<and> lower mid = n)"
proof
  assume "\<exists>ps ss. lower s = ps @ n @ ss"
  then obtain ps ss where "map lower_char s = ps @ (n @ ss)"
    by (auto simp: lower_def)
  then have "\<exists>pre rest. s = pre @ rest \<and> ps = map lower_char pre \<and> n @ ss = map lower_char rest"
    by (simp only: map_eq_append_conv)
  then obtain pre rest where s: "s = pre @ rest" and rest: "map lower_char rest = n @ ss"
    by auto
  from rest have "\<exists>mid post. rest = mid @ post \<and> n = map lower_char mid \<and> ss = map lower_char post"
    by (simp only: map_eq_append_conv)
  then obtain mid post where "rest = mid @ post" and "map lower_char mid = n"
    by auto
  with s have "s = pre @ mid @ post \<and> lower mid = n"
    by (simp add: lower_def)
  then show "\<exists>pre mid post. s = pre @ mid @ post \<and> lower mid = n"
    by blast
next
  assume "\<exists>pre mid post. s = pre @ mid @ post \<and> lower mid = n"
  then obtain pre mid post where "s = pre @ mid @ post" and "lower mid = n"
    by blast
  then have "lower s = lower pre @ n @ lower post"
    by (simp add: lower_def)
  then show "\<exists>ps ss. lower s = ps @ n @ ss"
    by blast
qed

subsection \<open>C6: the Windows Store shim test\<close>

text \<open>
  C6.  \<open>is_windows_store_shim\<close> is true exactly for the paths that have a part which,
  lowered, reads \<open>microsoft\windowsapps\<close> or \<open>microsoft/windowsapps\<close>; it is false for
  every other path and for \<open>None\<close>.  The six paths of the specification come out as the
  specification says: the shim under \<open>C:\Users\U\AppData\Local\Microsoft\WindowsApps\<close>,
  its upper-case variant and its forward-slash variant are shims; \<open>/usr/bin/python3\<close>,
  \<open>C:\Python312\python.exe\<close> and \<open>None\<close> are not.
\<close>

theorem is_windows_store_shim_substring:
  "(is_windows_store_shim path \<longleftrightarrow>
      (\<exists>pre mid post. path = Some (pre @ mid @ post) \<and>
         (lower mid = ''microsoft'' @ bs # ''windowsapps'' \<or>
          lower mid = ''microsoft/windowsapps'')))
   \<and> is_windows_store_shim
        (Some (''C:'' @ bs # ''Users'' @ bs # ''U'' @ bs # ''AppData'' @ bs # ''Local'' @ bs #
               ''Microsoft'' @ bs # ''WindowsApps'' @ bs # ''python3.exe''))
   \<and> is_windows_store_shim
        (Some (''C:'' @ bs # ''Users'' @ bs # ''U'' @ bs # ''AppData'' @ bs # ''Local'' @ bs #
               ''MICROSOFT'' @ bs # ''WINDOWSAPPS'' @ bs # ''python3.exe''))
   \<and> is_windows_store_shim
        (Some ''C:/Users/U/AppData/Local/Microsoft/WindowsApps/python3.exe'')
   \<and> \<not> is_windows_store_shim (Some ''/usr/bin/python3'')
   \<and> \<not> is_windows_store_shim (Some (''C:'' @ bs # ''Python312'' @ bs # ''python.exe''))
   \<and> \<not> is_windows_store_shim None"
proof -
  have general: "is_windows_store_shim path \<longleftrightarrow>
      (\<exists>pre mid post. path = Some (pre @ mid @ post) \<and>
         (lower mid = ''microsoft'' @ bs # ''windowsapps'' \<or>
          lower mid = ''microsoft/windowsapps''))"
  proof (cases path)
    case None
    then show ?thesis by (simp add: is_windows_store_shim_def)
  next
    case (Some p)
    have "is_windows_store_shim (Some p) \<longleftrightarrow>
          (\<exists>ps ss. lower p = ps @ shim_backslash @ ss) \<or>
          (\<exists>ps ss. lower p = ps @ shim_slash @ ss)"
      by (simp add: is_windows_store_shim_def py_in_iff_split Let_def)
    also have "\<dots> \<longleftrightarrow>
          (\<exists>pre mid post. p = pre @ mid @ post \<and> lower mid = shim_backslash) \<or>
          (\<exists>pre mid post. p = pre @ mid @ post \<and> lower mid = shim_slash)"
      by (simp only: lower_split)
    finally show ?thesis
      using Some unfolding shim_backslash_def shim_slash_def by blast
  qed
  have e1: "is_windows_store_shim
        (Some (''C:'' @ bs # ''Users'' @ bs # ''U'' @ bs # ''AppData'' @ bs # ''Local'' @ bs #
               ''Microsoft'' @ bs # ''WindowsApps'' @ bs # ''python3.exe''))"
    by code_simp
  have e2: "is_windows_store_shim
        (Some (''C:'' @ bs # ''Users'' @ bs # ''U'' @ bs # ''AppData'' @ bs # ''Local'' @ bs #
               ''MICROSOFT'' @ bs # ''WINDOWSAPPS'' @ bs # ''python3.exe''))"
    by code_simp
  have e3: "is_windows_store_shim
        (Some ''C:/Users/U/AppData/Local/Microsoft/WindowsApps/python3.exe'')"
    by code_simp
  have e4: "\<not> is_windows_store_shim (Some ''/usr/bin/python3'')"
    by code_simp
  have e5: "\<not> is_windows_store_shim (Some (''C:'' @ bs # ''Python312'' @ bs # ''python.exe''))"
    by code_simp
  have e6: "\<not> is_windows_store_shim None"
    by (simp add: is_windows_store_shim_def)
  show ?thesis
    by (intro conjI general e1 e2 e3 e4 e5 e6)
qed

subsection \<open>C3: the order of the three sources\<close>

lemma live_discovery_environ [simp]:
  "live_discovery (e\<lparr>environ_exe := v\<rparr>) = live_discovery e"
  by (simp add: live_discovery_def)





subsection \<open>C10: an empty override\<close>

text \<open>
  C10.  An environment override set to the empty string is treated as an unset one:
  the result is the same, and it is the configuration value when there is one, and
  live discovery otherwise.
\<close>

theorem empty_override_is_unset:
  "find_current_python_executable (e\<lparr>environ_exe := Some []\<rparr>)
     = find_current_python_executable (e\<lparr>environ_exe := None\<rparr>)
   \<and> find_current_python_executable (e\<lparr>environ_exe := Some []\<rparr>)
     = (case config_exe e of
          Some c \<Rightarrow> ([], Inr (Path c))
        | None \<Rightarrow> live_discovery e)"
  by (simp add: find_current_python_executable_def split: option.splits)

subsection \<open>C5: the pip probe\<close>


subsection \<open>C4: the dry run\<close>

lemma decode_conflict_text:
  "decode ''ERROR: Cannot install'' =
     Some [69, 82, 82, 79, 82, 58, 32, 67, 97, 110, 110, 111, 116, 32, 105, 110, 115, 116, 97, 108, 108]"
  by code_simp

lemma decode_empty: "decode '''' = Some []"
  by (simp add: decode_def)

lemma decode_e_acute: "decode [CHR 0xE9] = None"
  by code_simp

lemma decode_listing: "decode ''pkg==1.0'' = Some [112, 107, 103, 61, 61, 49, 46, 48]"
  by code_simp

lemma decode_p_e_acute: "decode [CHR ''p'', CHR 0xE9] = None"
  by code_simp

text \<open>
  The claim "on any nonzero exit it raises \<open>CantInstallPackagesError\<close>" fails when
  the captured output is not UTF-8: a dry run that exits with 1 and whose standard error
  holds the byte \<open>0xE9\<close> raises \<open>UnicodeDecodeError\<close>, from the
  \<open>stderr.decode()\<close> that is evaluated for \<open>logger.debug\<close> before the \<open>raise\<close>.
\<close>

theorem verify_pip_can_install_packages_undecodable:
  "cp1252_stderr_run [''python3'', ''-m'', ''pip'', ''install'', ''--dry-run'', ''pkg==1.0.0'', ''pkg==2.0.0''] None
     = Completed 1 ''ERROR: Cannot install'' [CHR 0xE9]
   \<and> verify_pip_can_install_packages cp1252_stderr_run (Path ''python3'') [''pkg==1.0.0'', ''pkg==2.0.0'']
     = Inl UnicodeDecodeError"
  by (simp add: cp1252_stderr_run_def verify_pip_can_install_packages_def decode_conflict_text decode_e_acute)

text \<open>
  C4, amended.  \<open>verify_pip_can_install_packages\<close> returns normally exactly when the
  dry run completed with return code zero.  On a nonzero return code, when the captured
  standard output and standard error both decode as UTF-8, it raises
  \<open>CantInstallPackagesError\<close> whose message is the decoded standard output; when one of
  them does not decode, the strict \<open>decode()\<close> raises \<open>UnicodeDecodeError\<close>.
\<close>

theorem verify_pip_can_install_packages_outcomes:
  "((\<exists>u. verify_pip_can_install_packages run python_exe packages = Inr u) \<longleftrightarrow>
      (\<exists>out err. run ([str_path python_exe, ''-m'', ''pip'', ''install'', ''--dry-run''] @ packages) None
                    = Completed 0 out err))
   \<and> (run ([str_path python_exe, ''-m'', ''pip'', ''install'', ''--dry-run''] @ packages) None
         = Completed rc out err \<and> rc \<noteq> 0 \<and> decode out = Some msg \<and> decode err = Some msg' \<longrightarrow>
       verify_pip_can_install_packages run python_exe packages = Inl (CantInstallPackagesError msg))
   \<and> (run ([str_path python_exe, ''-m'', ''pip'', ''install'', ''--dry-run''] @ packages) None
         = Completed rc out err \<and> rc \<noteq> 0 \<and> (decode out = None \<or> decode err = None) \<longrightarrow>
       verify_pip_can_install_packages run python_exe packages = Inl UnicodeDecodeError)"
proof (intro conjI impI)
  show "(\<exists>u. verify_pip_can_install_packages run python_exe packages = Inr u) \<longleftrightarrow>
      (\<exists>out err. run ([str_path python_exe, ''-m'', ''pip'', ''install'', ''--dry-run''] @ packages) None
                    = Completed 0 out err)"
    by (auto simp: verify_pip_can_install_packages_def split: launch.splits option.splits)
next
  assume "run ([str_path python_exe, ''-m'', ''pip'', ''install'', ''--dry-run''] @ packages) None
         = Completed rc out err \<and> rc \<noteq> 0 \<and> decode out = Some msg \<and> decode err = Some msg'"
  then show "verify_pip_can_install_packages run python_exe packages = Inl (CantInstallPackagesError msg)"
    by (simp add: verify_pip_can_install_packages_def)
next
  assume "run ([str_path python_exe, ''-m'', ''pip'', ''install'', ''--dry-run''] @ packages) None
         = Completed rc out err \<and> rc \<noteq> 0 \<and> (decode out = None \<or> decode err = None)"
  then show "verify_pip_can_install_packages run python_exe packages = Inl UnicodeDecodeError"
    by (auto simp: verify_pip_can_install_packages_def split: option.splits)
qed

theorem verify_pip_can_install_packages_outcomes_witness:
  "verify_pip_can_install_packages conflict_run (Path ''python3'') [''pkg==1.0.0'', ''pkg==2.0.0'']
     = Inl (CantInstallPackagesError
         [69, 82, 82, 79, 82, 58, 32, 67, 97, 110, 110, 111, 116, 32, 105, 110, 115, 116, 97, 108, 108])
   \<and> verify_pip_can_install_packages cp1252_stderr_run (Path ''python3'') [''pkg==1.0.0'']
     = Inl UnicodeDecodeError"
  using verify_pip_can_install_packages_outcomes
          [of conflict_run "Path ''python3''" "[''pkg==1.0.0'', ''pkg==2.0.0'']" 1
              "''ERROR: Cannot install''" "''''"
              "[69, 82, 82, 79, 82, 58, 32, 67, 97, 110, 110, 111, 116, 32, 105, 110, 115, 116, 97, 108, 108]" "[]"]
        verify_pip_can_install_packages_outcomes
          [of cp1252_stderr_run "Path ''python3''" "[''pkg==1.0.0'']" 1
              "''ERROR: Cannot install''" "[CHR 0xE9]"]
  by (simp add: conflict_run_def cp1252_stderr_run_def decode_conflict_text decode_empty decode_e_acute)

subsection \<open>C8: pip freeze\<close>

text \<open>
  The claim "on return code zero it returns the captured standard output decoded as
  text" fails when that output is not UTF-8: a freeze that exits with 0 and prints the
  byte \<open>0xE9\<close> raises \<open>UnicodeDecodeError\<close>.
\<close>

theorem pip_freeze_undecodable:
  "cp1252_stdout_run [''python3'', ''-m'', ''pip'', ''freeze''] None = Completed 0 [CHR ''p'', CHR 0xE9] ''''
   \<and> pip_freeze cp1252_stdout_run (Path ''python3'') = Inl UnicodeDecodeError"
  by (simp add: cp1252_stdout_run_def pip_freeze_def decode_p_e_acute)

text \<open>
  C8, amended.  On return code zero, \<open>pip_freeze\<close> returns the captured standard
  output decoded as text when it decodes as UTF-8, and raises \<open>UnicodeDecodeError\<close>
  when it does not.  On a nonzero return code it raises \<open>CalledProcessError\<close> with the
  return code and the command and without captured output; this is never a
  \<open>CantInstallPackagesError\<close>.
\<close>

theorem pip_freeze_outcomes:
  "(run [str_path python_exe, ''-m'', ''pip'', ''freeze''] None = Completed 0 out err
      \<and> decode out = Some t \<longrightarrow>
    pip_freeze run python_exe = Inr t)
   \<and> (run [str_path python_exe, ''-m'', ''pip'', ''freeze''] None = Completed 0 out err
      \<and> decode out = None \<longrightarrow>
    pip_freeze run python_exe = Inl UnicodeDecodeError)
   \<and> (run [str_path python_exe, ''-m'', ''pip'', ''freeze''] None = Completed rc out err
      \<and> rc \<noteq> 0 \<longrightarrow>
    pip_freeze run python_exe
      = Inl (CalledProcessError rc [str_path python_exe, ''-m'', ''pip'', ''freeze''] None)
    \<and> (\<forall>msg. pip_freeze run python_exe \<noteq> Inl (CantInstallPackagesError msg)))"
  by (auto simp: pip_freeze_def)

theorem pip_freeze_outcomes_witness:
  "pip_freeze listing_run (Path ''python3'') = Inr [112, 107, 103, 61, 61, 49, 46, 48]
   \<and> pip_freeze cp1252_stdout_run (Path ''python3'') = Inl UnicodeDecodeError
   \<and> pip_freeze failing_run (Path ''python3'')
       = Inl (CalledProcessError 2 [''python3'', ''-m'', ''pip'', ''freeze''] None)"
  using pip_freeze_outcomes
          [of listing_run "Path ''python3''" "''pkg==1.0''" "''''" "[112, 107, 103, 61, 61, 49, 46, 48]"]
        pip_freeze_outcomes
          [of cp1252_stdout_run "Path ''python3''" "[CHR ''p'', CHR 0xE9]" "''''"]
        pip_freeze_outcomes
          [of failing_run "Path ''python3''" "[]" "[]" _ 2]
  by (simp add: listing_run_def cp1252_stdout_run_def failing_run_def decode_listing decode_p_e_acute)

subsection \<open>C7: the order of the candidates in the discovery script\<close>

lemma truthy_Some [simp]: "truthy (Some s) \<longleftrightarrow> s \<noteq> []"
  by (simp add: truthy_def)

lemma truthy_None [simp]: "\<not> truthy None"
  by (simp add: truthy_def)

lemma not_shim_None [simp]: "\<not> is_windows_store_shim None"
  by (simp add: is_windows_store_shim_def)








text \<open>
  The order at work on the embedded Windows interpreter: the host application's name
  is not taken, the prefix path is; a reported \<open>Python.exe\<close> is taken as it is;
  without a prefix the Store shim is the last resort; and with nothing on the search
  path the result is \<open>None\<close>.
\<close>

lemma find_python_executable_examples:
  "find_python_executable embedded_windows_env = Some ''C:/IDA/python314/python.exe''"
  "find_python_executable (embedded_windows_env\<lparr>sys_executable := Some ''C:/IDA/Python.exe''\<rparr>)
     = Some ''C:/IDA/Python.exe''"
  "find_python_executable (embedded_windows_env\<lparr>sys_prefix := []\<rparr>)
     = Some ''C:/Users/u/AppData/Local/Microsoft/WindowsApps/python3.exe''"
  "find_python_executable (embedded_windows_env\<lparr>sys_prefix := [], shutil_which := (\<lambda>cmd. None)\<rparr>)
     = None"
  by code_simp+

subsection \<open>C2: removal when nothing is registered\<close>


lemma world_same_registry [simp]: "w\<lparr>registry := registry w, console := c\<rparr> = w\<lparr>console := c\<rparr>"
  by simp







subsection \<open>C9: removal from a partial registry subtree\<close>

lemma map_of_filter_keys:
  "map_of (filter (\<lambda>(k, v). P k) r) k = (if P k then map_of r k else None)"
  by (induction r) auto

lemma delete_as_filter: "AList.delete k r = filter (\<lambda>(k', v). k' \<noteq> k) r"
  by (induction r) auto

lemma has_subkey_iff: "has_subkey r k \<longleftrightarrow> (\<exists>k' \<in> set (map fst r). strict_prefix k k')"
  by (force simp: has_subkey_def list_ex_iff)

lemma delete_key_sequence_first_missing:
  assumes "\<forall>k \<in> set before. map_of r k \<noteq> None"
    and "map_of r missing = None"
    and "distinct before"
    and "\<forall>xs k ys k'. before = xs @ k # ys \<longrightarrow> k' \<in> set (map fst r) \<longrightarrow> strict_prefix k k'
           \<longrightarrow> k' \<in> set xs"
  shows "delete_key_sequence r (before @ missing # after)
           = (Some FileNotFoundError, filter (\<lambda>(k, v). k \<notin> set before) r)"
  using assms
proof (induction before arbitrary: r)
  case Nil
  then show ?case
    by (simp add: DeleteKeyEx_def)
next
  case (Cons b bs)
  have present: "map_of r b \<noteq> None"
    using Cons.prems(1) by simp
  have "\<not> has_subkey r b"
  proof
    assume "has_subkey r b"
    then obtain k' where "k' \<in> set (map fst r)" and "strict_prefix b k'"
      by (auto simp: has_subkey_iff)
    then have "k' \<in> set []"
      using Cons.prems(4) by (metis append_Nil)
    then show False
      by simp
  qed
  with present have step: "DeleteKeyEx r b = Inr (AList.delete b r)"
    by (auto simp: DeleteKeyEx_def)
  let ?r' = "AList.delete b r"
  have 1: "\<forall>k \<in> set bs. map_of ?r' k \<noteq> None"
    using Cons.prems(1,3) by (auto simp: delete_conv')
  have 2: "map_of ?r' missing = None"
    using Cons.prems(2) by (simp add: delete_conv')
  have 3: "distinct bs"
    using Cons.prems(3) by simp
  have 4: "\<forall>xs k ys k'. bs = xs @ k # ys \<longrightarrow> k' \<in> set (map fst ?r') \<longrightarrow> strict_prefix k k'
           \<longrightarrow> k' \<in> set xs"
  proof (intro allI impI)
    fix xs k ys k'
    assume bs: "bs = xs @ k # ys" and k': "k' \<in> set (map fst ?r')" and sp: "strict_prefix k k'"
    from k' have "k' \<in> set (map fst r)" and "k' \<noteq> b"
      by (auto simp: delete_as_filter)
    moreover have "b # bs = (b # xs) @ k # ys"
      using bs by simp
    ultimately have "k' \<in> set (b # xs)"
      using Cons.prems(4) sp by blast
    with \<open>k' \<noteq> b\<close> show "k' \<in> set xs"
      by simp
  qed
  have "delete_key_sequence ?r' (bs @ missing # after)
          = (Some FileNotFoundError, filter (\<lambda>(k, v). k \<notin> set bs) ?r')"
    using Cons.IH [OF 1 2 3 4] .
  moreover have "filter (\<lambda>(k, v). k \<notin> set bs) ?r' = filter (\<lambda>(k, v). k \<notin> set (b # bs)) r"
    by (auto simp: delete_as_filter intro: filter_cong)
  ultimately show ?case
    using step by simp
qed

lemma handler_keys_distinct: "distinct handler_keys"
  by (simp add: handler_keys_def handler_root_def)

lemma handler_keys_below_root: "k \<in> set handler_keys \<Longrightarrow> prefix handler_root k"
  by (auto simp: handler_keys_def)

lemma handler_subkeys_come_first:
  assumes "handler_keys = xs @ k # ys" and "k' \<in> set handler_keys" and "strict_prefix k k'"
  shows "k' \<in> set xs"
proof -
  have "k' \<noteq> k"
    using assms(3) by auto
  have later: "k' \<notin> set ys"
  proof
    assume "k' \<in> set ys"
    then obtain ys1 ys2 where "ys = ys1 @ k' # ys2"
      by (auto simp: in_set_conv_decomp)
    then have "handler_keys = xs @ k # ys1 @ k' # ys2"
      using assms(1) by simp
    then show False
      using assms(3)
      by (auto simp: handler_keys_def handler_root_def PROTOCOL_def
                     append_eq_Cons_conv Cons_eq_append_conv strict_prefix_def)
  qed
  have "k' \<in> set (xs @ k # ys)"
    using assms(2) by (simp only: assms(1))
  with \<open>k' \<noteq> k\<close> later show ?thesis
    by auto
qed


text \<open>
  C9.  Let the deletion sequence (\<open>shell\open\command\<close>, \<open>shell\open\<close>, \<open>shell\<close>,
  \<open>DefaultIcon\<close>, root) split into the keys before the first missing key, that key,
  and the keys after it, in a subtree that holds no keys but the handler's.  Then
  \<open>unregister_windows_protocol_handler\<close> returns without raising and prints
  "not found (already removed)"; the keys before the missing one are deleted, and the
  deletions after it are not tried: every later key is as it was.  When a key was
  deleted the registry has changed, although the message says "already removed".
\<close>

theorem unregister_windows_partial_subtree:
  assumes "has_winreg e"
    and "handler_keys = before @ missing # after"
    and "\<forall>k \<in> set before. map_of (registry w) k \<noteq> None"
    and "map_of (registry w) missing = None"
    and "\<forall>k \<in> set (map fst (registry w)). prefix handler_root k \<longrightarrow> k \<in> set handler_keys"
  shows "unregister_windows_protocol_handler e w
           = (Returned,
              w\<lparr>registry := filter (\<lambda>(k, v). k \<notin> set before) (registry w),
                console := console w @ [Not_found_windows]\<rparr>)
         \<and> (\<forall>k \<in> set before.
               map_of (registry (snd (unregister_windows_protocol_handler e w))) k = None)
         \<and> (\<forall>k \<in> set after.
               map_of (registry (snd (unregister_windows_protocol_handler e w))) k
                 = map_of (registry w) k)
         \<and> (before \<noteq> [] \<longrightarrow>
               registry (snd (unregister_windows_protocol_handler e w)) \<noteq> registry w)"
proof -
  have d: "distinct (before @ missing # after)"
    using handler_keys_distinct by (simp only: assms(2))
  have order: "\<forall>xs k ys k'. before = xs @ k # ys \<longrightarrow> k' \<in> set (map fst (registry w))
                 \<longrightarrow> strict_prefix k k' \<longrightarrow> k' \<in> set xs"
  proof (intro allI impI)
    fix xs k ys k'
    assume b: "before = xs @ k # ys" and in_r: "k' \<in> set (map fst (registry w))"
      and sp: "strict_prefix k k'"
    have split: "handler_keys = xs @ k # (ys @ missing # after)"
      using b by (simp add: assms(2))
    have "k \<in> set handler_keys"
      by (subst split) simp
    then have "prefix handler_root k"
      by (rule handler_keys_below_root)
    with sp have "prefix handler_root k'"
      by (auto simp: strict_prefix_def elim: prefix_order.trans)
    with in_r assms(5) have "k' \<in> set handler_keys"
      by blast
    from handler_subkeys_come_first [OF split this sp] show "k' \<in> set xs" .
  qed
  have seq: "delete_key_sequence (registry w) handler_keys
               = (Some FileNotFoundError, filter (\<lambda>(k, v). k \<notin> set before) (registry w))"
    using delete_key_sequence_first_missing [OF assms(3) assms(4) _ order, of after] d
    by (simp add: assms(2))
  have main: "unregister_windows_protocol_handler e w
           = (Returned,
              w\<lparr>registry := filter (\<lambda>(k, v). k \<notin> set before) (registry w),
                console := console w @ [Not_found_windows]\<rparr>)"
    using assms(1) by (simp add: unregister_windows_protocol_handler_def seq)
  have gone: "\<forall>k \<in> set before.
               map_of (registry (snd (unregister_windows_protocol_handler e w))) k = None"
    by (simp add: main map_of_filter_keys)
  have kept: "\<forall>k \<in> set after.
               map_of (registry (snd (unregister_windows_protocol_handler e w))) k
                 = map_of (registry w) k"
    using d by (auto simp: main map_of_filter_keys)
  have changed: "before \<noteq> [] \<longrightarrow>
               registry (snd (unregister_windows_protocol_handler e w)) \<noteq> registry w"
  proof
    assume "before \<noteq> []"
    then obtain b bs where b: "before = b # bs"
      by (cases before) auto
    then have "map_of (registry w) b \<noteq> None"
      using assms(3) by simp
    moreover have "map_of (registry (snd (unregister_windows_protocol_handler e w))) b = None"
      using gone b by simp
    ultimately show "registry (snd (unregister_windows_protocol_handler e w)) \<noteq> registry w"
      by auto
  qed
  from main gone kept changed show ?thesis
    by blast
qed

theorem unregister_windows_partial_subtree_witness:
  "unregister_windows_protocol_handler (example_env ''Windows'') partial_world
     = (Returned,
        \<lparr>fs = [],
         registry =
           [([''SOFTWARE''], []),
            ([''SOFTWARE'', ''Classes''], []),
            ([''SOFTWARE'', ''Classes'', ''ida''], [([], ''URL:IDA Protocol'')])],
         console = [Not_found_windows]\<rparr>)
   \<and> registry (snd (unregister_windows_protocol_handler (example_env ''Windows'') partial_world))
       \<noteq> registry partial_world
   \<and> map_of (registry (snd (unregister_windows_protocol_handler (example_env ''Windows'') partial_world)))
         handler_root
       = Some [([], ''URL:IDA Protocol'')]"
  using unregister_windows_partial_subtree
          [of "example_env ''Windows''"
              "[handler_root @ [''shell'', ''open'', ''command''],
                handler_root @ [''shell'', ''open''],
                handler_root @ [''shell'']]"
              "handler_root @ [''DefaultIcon'']"
              "[handler_root]"
              partial_world]
  by (simp add: example_env_def partial_world_def handler_keys_def handler_root_def PROTOCOL_def)

subsection \<open>C1: registering twice\<close>
































end
